theory Spec2Isabelle
  imports Main "HOL-Library.List_Lexorder" "HOL-Library.Char_ord" "HOL-Library.Finite_Map"
begin

section \<open>The event store of internal/blockchain\<close>

text \<open>
  A shallow embedding of \<^verbatim>\<open>blockchain.go\<close>: the \<^verbatim>\<open>Event\<close>, \<^verbatim>\<open>AgentInfo\<close> and
  \<^verbatim>\<open>Blockchain\<close> structs are records, the two Go maps are partial functions, and each
  method is a function of the store it is called on. The mutex and the logger are left out:
  every method body runs under the lock, so the model is the sequential behaviour of one call.
  The map of the store holds pointers to events; the model gives, for each hash, the event
  that the pointer stored under it points to, so one pointer stored under two hashes is one
  event under two hashes.
\<close>

subsection \<open>Data model\<close>

text \<open>
  Go strings and byte slices are both sequences of bytes; \<^typ>\<open>char\<close> is an 8-bit byte, so
  both are \<^typ>\<open>string\<close> here and the conversion \<^verbatim>\<open>[]byte(s)\<close> is the identity.
\<close>

type_synonym bytes = string

text \<open>A reading of the wall clock (\<^verbatim>\<open>time.Time\<close>), in nanoseconds.\<close>

type_synonym time = int

text \<open>
  The payload map is a Go \<^verbatim>\<open>map[string]string\<close>: a finite map, or \<^verbatim>\<open>nil\<close>. The two
  are kept apart (\<^const>\<open>None\<close> is \<^verbatim>\<open>nil\<close>), since \<^verbatim>\<open>json.Marshal\<close> writes a
  \<^verbatim>\<open>nil\<close> map and an empty map differently.
\<close>

record event_data =
  Type :: string
  Description :: string
  Payload :: "(string, string) fmap option"
  Timestamp :: string

record event =
  Data :: event_data
  Parents :: "string list"
  Signature :: string
  AuthorPubKey :: string

record agent_info =
  PubKey :: string
  LastEventHash :: string
  LastSeen :: time

record blockchain =
  events :: "string \<rightharpoonup> event"
  agents :: "string \<rightharpoonup> agent_info"

definition New :: blockchain where
  "New = \<lparr>events = Map.empty, agents = Map.empty\<rparr>"

subsection \<open>Results: errors and panics\<close>

datatype hex_error = InvalidByteError char | ErrLength

text \<open>
  The errors built with \<^verbatim>\<open>fmt.Errorf\<close>; a wrapped error (\<^verbatim>\<open>%w\<close>) is the argument of the
  constructor. A Go result of type \<^verbatim>\<open>error\<close> is an optional error, \<^verbatim>\<open>nil\<close> being
  \<^const>\<open>None\<close>, and a result \<^verbatim>\<open>(T, error)\<close> is a sum.
\<close>

datatype error =
    InvalidPublicKey hex_error
  | InvalidSignature hex_error
  | SignatureVerificationFailed
  | EventVerificationFailed error
  | FailedToSignEvent error

datatype panic =
    BadPrivateKeyLength nat
  | BadPublicKeyLength nat
  | SliceBoundsOutOfRange int nat

text \<open>A call either returns its results or panics.\<close>

datatype 'a outcome = Returns 'a | Panics panic

subsection \<open>Standard library\<close>

text \<open>
  The functions of the Go standard library that the store calls are not part of the
  repository. The serialisation, the digest, the core of the signature scheme and the
  formatting of a time are parameters of the model, collected in one record; nothing is
  assumed about them.
\<close>

record lib =
  json_Marshal :: "event_data \<Rightarrow> bytes"
  sha3_Sum512 :: "bytes \<Rightarrow> bytes"
  ed25519_sign :: "bytes \<Rightarrow> bytes \<Rightarrow> bytes"
  ed25519_verify :: "bytes \<Rightarrow> bytes \<Rightarrow> bytes \<Rightarrow> bool"
  time_Format_RFC3339 :: "time \<Rightarrow> string"

text \<open>
  \<^verbatim>\<open>ed25519.Sign\<close> and \<^verbatim>\<open>ed25519.Verify\<close> panic on a key of the wrong length
  (\<^verbatim>\<open>PrivateKeySize\<close> is 64, \<^verbatim>\<open>PublicKeySize\<close> is 32) before they compute anything.
\<close>

definition PrivateKeySize :: nat where
  "PrivateKeySize = 64"

definition PublicKeySize :: nat where
  "PublicKeySize = 32"

definition ed25519_Sign :: "lib \<Rightarrow> bytes \<Rightarrow> bytes \<Rightarrow> bytes outcome" where
  "ed25519_Sign L privateKey message =
     (if length privateKey \<noteq> PrivateKeySize then Panics (BadPrivateKeyLength (length privateKey))
      else Returns (ed25519_sign L privateKey message))"

definition ed25519_Verify :: "lib \<Rightarrow> bytes \<Rightarrow> bytes \<Rightarrow> bytes \<Rightarrow> bool outcome" where
  "ed25519_Verify L publicKey message sig =
     (if length publicKey \<noteq> PublicKeySize then Panics (BadPublicKeyLength (length publicKey))
      else Returns (ed25519_verify L publicKey message sig))"

text \<open>
  \<^verbatim>\<open>encoding/hex\<close>: \<^verbatim>\<open>EncodeToString\<close> writes two lower-case digits per byte;
  \<^verbatim>\<open>DecodeString\<close> reads digits of either case, and fails on a character that is not a
  digit and on an odd length.
\<close>

definition hextable :: string where
  "hextable = ''0123456789abcdef''"

definition hex_EncodeToString :: "bytes \<Rightarrow> string" where
  "hex_EncodeToString src =
     concat (map (\<lambda>v. [hextable ! (of_char v div 16), hextable ! (of_char v mod 16)]) src)"

definition fromHexChar :: "char \<Rightarrow> nat option" where
  "fromHexChar c =
     (let n = (of_char c :: nat) in
      if 48 \<le> n \<and> n \<le> 57 then Some (n - 48)
      else if 97 \<le> n \<and> n \<le> 102 then Some (n - 97 + 10)
      else if 65 \<le> n \<and> n \<le> 70 then Some (n - 65 + 10)
      else None)"

fun hex_DecodeString :: "string \<Rightarrow> hex_error + bytes" where
  "hex_DecodeString [] = Inr []"
| "hex_DecodeString [p] =
     (case fromHexChar p of None \<Rightarrow> Inl (InvalidByteError p) | Some a \<Rightarrow> Inl ErrLength)"
| "hex_DecodeString (p # q # src) =
     (case fromHexChar p of
        None \<Rightarrow> Inl (InvalidByteError p)
      | Some a \<Rightarrow>
          (case fromHexChar q of
             None \<Rightarrow> Inl (InvalidByteError q)
           | Some b \<Rightarrow>
               (case hex_DecodeString src of
                  Inl err \<Rightarrow> Inl err
                | Inr dst \<Rightarrow> Inr (char_of (a * 16 + b) # dst))))"

subsection \<open>Hashing, signing, verifying\<close>

text \<open>
  The three helper methods never read their receiver, so the model does not pass it.
  \<^verbatim>\<open>HashEvent\<close> marshals \<^verbatim>\<open>event.Data\<close> only.
\<close>

definition HashEvent :: "lib \<Rightarrow> event \<Rightarrow> string" where
  "HashEvent L event = hex_EncodeToString (sha3_Sum512 L (json_Marshal L (Data event)))"

definition signEvent :: "lib \<Rightarrow> event \<Rightarrow> bytes \<Rightarrow> (error + string) outcome" where
  "signEvent L event priv =
     (let eventHash = HashEvent L event in
      case ed25519_Sign L priv eventHash of
        Panics p \<Rightarrow> Panics p
      | Returns signature \<Rightarrow> Returns (Inr (hex_EncodeToString signature)))"

definition verifyEvent :: "lib \<Rightarrow> event \<Rightarrow> error option outcome" where
  "verifyEvent L event =
     (case hex_DecodeString (AuthorPubKey event) of
        Inl err \<Rightarrow> Returns (Some (InvalidPublicKey err))
      | Inr pubKeyBytes \<Rightarrow>
          (case hex_DecodeString (Signature event) of
             Inl err \<Rightarrow> Returns (Some (InvalidSignature err))
           | Inr signatureBytes \<Rightarrow>
               (let eventHash = HashEvent L event in
                case ed25519_Verify L pubKeyBytes eventHash signatureBytes of
                  Panics p \<Rightarrow> Panics p
                | Returns ok \<Rightarrow>
                    if \<not> ok then Returns (Some SignatureVerificationFailed)
                    else Returns None)))"

subsection \<open>The store's methods\<close>

text \<open>
  \<^verbatim>\<open>CreateEvent\<close> reads the clock once (\<open>now\<close>). It is a method of the store, so the
  model takes the store and returns it next to the result.
\<close>

definition CreateEvent ::
  "lib \<Rightarrow> time \<Rightarrow> blockchain \<Rightarrow> string \<Rightarrow> string \<Rightarrow> (string, string) fmap option \<Rightarrow>
     string list \<Rightarrow>
     bytes \<Rightarrow> bytes \<Rightarrow> blockchain \<times> (error + event) outcome" where
  "CreateEvent L now bc eventType description payload parents pub priv =
     (let event = \<lparr>Data = \<lparr>Type = eventType, Description = description, Payload = payload,
                            Timestamp = time_Format_RFC3339 L now\<rparr>,
                   Parents = parents, Signature = [], AuthorPubKey = hex_EncodeToString pub\<rparr> in
      case signEvent L event priv of
        Panics p \<Rightarrow> (bc, Panics p)
      | Returns (Inl err) \<Rightarrow> (bc, Returns (Inl (FailedToSignEvent err)))
      | Returns (Inr signature) \<Rightarrow> (bc, Returns (Inr (event\<lparr>Signature := signature\<rparr>))))"

text \<open>\<^verbatim>\<open>AddEvent\<close> reads the clock once, for \<^verbatim>\<open>LastSeen\<close>.\<close>

definition AddEvent :: "lib \<Rightarrow> time \<Rightarrow> blockchain \<Rightarrow> event \<Rightarrow> blockchain \<times> error option outcome" where
  "AddEvent L now bc event =
     (case verifyEvent L event of
        Panics p \<Rightarrow> (bc, Panics p)
      | Returns (Some err) \<Rightarrow> (bc, Returns (Some (EventVerificationFailed err)))
      | Returns None \<Rightarrow>
          (let hash = HashEvent L event in
           (bc\<lparr>events := (events bc)(hash \<mapsto> event),
               agents := (agents bc)(AuthorPubKey event \<mapsto>
                 \<lparr>PubKey = AuthorPubKey event, LastEventHash = hash, LastSeen = now\<rparr>)\<rparr>,
            Returns None)))"

definition GetEvent :: "blockchain \<Rightarrow> string \<Rightarrow> event option" where
  "GetEvent bc hash = events bc hash"

definition GetAgents :: "blockchain \<Rightarrow> (string \<rightharpoonup> agent_info)" where
  "GetAgents bc = (\<lambda>k. agents bc k)"

text \<open>
  \<^verbatim>\<open>GetRecentEvents\<close> collects the values of the map with a \<^verbatim>\<open>range\<close> loop, whose order
  Go leaves unspecified. The order in which the loop meets the keys is therefore an argument
  of the model: any list that enumerates the keys of the map once each.
\<close>

definition range_order :: "('k \<rightharpoonup> 'v) \<Rightarrow> 'k list \<Rightarrow> bool" where
  "range_order m ks = (distinct ks \<and> set ks = dom m)"

text \<open>
  The limit is a Go \<^verbatim>\<open>int\<close>. The comparison and the subtraction are those of the integers:
  the subtraction is only reached with \<^verbatim>\<open>len(events) > limit\<close>, and it can leave the range
  of \<^verbatim>\<open>int\<close> only for a negative limit, where the slice expression panics whether the bound
  wraps around (it is then negative) or not (it then exceeds the length).
\<close>

definition GetRecentEvents :: "blockchain \<Rightarrow> string list \<Rightarrow> int \<Rightarrow> event list outcome" where
  "GetRecentEvents bc ks limit =
     (let evs = List.map_filter (events bc) ks in
      if int (length evs) > limit then
        (let low = int (length evs) - limit in
         if low < 0 \<or> int (length evs) < low then Panics (SliceBoundsOutOfRange low (length evs))
         else Returns (drop (nat low) evs))
      else Returns evs)"



subsection \<open>Notions used to state the properties\<close>


text \<open>
  The order that the specification asks of \<^verbatim>\<open>GetRecentEvents\<close>, in its words: ordered by
  creation timestamp, most recent first. Timestamps are RFC 3339 strings in UTC of one fixed
  format, which compare as strings.
\<close>

definition most_recent_first :: "event list \<Rightarrow> bool" where
  "most_recent_first es = sorted_wrt (\<lambda>a b. Timestamp (Data b) \<le> Timestamp (Data a)) es"

text \<open>A sequence of calls of \<^verbatim>\<open>AddEvent\<close>, each at its own time, that all return \<^verbatim>\<open>nil\<close>.\<close>

fun AddEvents :: "lib \<Rightarrow> blockchain \<Rightarrow> (time \<times> event) list \<Rightarrow> blockchain option" where
  "AddEvents L bc [] = Some bc"
| "AddEvents L bc ((now, event) # rest) =
     (case AddEvent L now bc event of
        (bc', Returns None) \<Rightarrow> AddEvents L bc' rest
      | _ \<Rightarrow> None)"

subsection \<open>An instance of the library parameters\<close>

text \<open>
  A small instance on which the theorems are exercised: the payload is serialised to its
  type, description, map (the entries in the order of their keys) and timestamp, the digest
  is the identity, a private key is a 32-byte seed followed by the public key, and a
  signature is the public key followed by the message.
\<close>

definition demo_payload :: "(string, string) fmap option \<Rightarrow> string" where
  "demo_payload p =
     (case p of
        None \<Rightarrow> ''null''
      | Some m \<Rightarrow>
          ''{'' @ concat (map (\<lambda>k. k @ '':'' @ (case fmlookup m k of None \<Rightarrow> [] | Some v \<Rightarrow> v) @ '','')
                   (sorted_list_of_fset (fmdom m))) @ ''}'')"

definition demo_lib :: lib where
  "demo_lib = \<lparr>json_Marshal = (\<lambda>d. Type d @ ''|'' @ Description d @ ''|'' @ demo_payload (Payload d)
                                   @ ''|'' @ Timestamp d),
     sha3_Sum512 = (\<lambda>b. b),
     ed25519_sign = (\<lambda>priv m. drop 32 priv @ m),
     ed25519_verify = (\<lambda>pub m sig. sig = pub @ m),
     time_Format_RFC3339 = (\<lambda>t. if t = 0 then ''T0'' else ''T1'')\<rparr>"

definition demo_pub :: bytes where
  "demo_pub = ''0123456789abcdefghijklmnopqrstuv''"

definition demo_priv :: bytes where
  "demo_priv = ''seedseedseedseedseedseedseedseed0123456789abcdefghijklmnopqrstuv''"

definition demo_event :: "string \<Rightarrow> string \<Rightarrow> string list \<Rightarrow> event" where
  "demo_event description timestamp parents =
     \<lparr>Data = \<lparr>Type = ''note'', Description = description, Payload = Some fmempty,
              Timestamp = timestamp\<rparr>,
      Parents = parents,
      Signature = hex_EncodeToString (demo_pub @ hex_EncodeToString
        (''note|'' @ description @ ''|{}|'' @ timestamp)),
      AuthorPubKey = hex_EncodeToString demo_pub\<rparr>"

text \<open>
  The public key of the instance in hex with upper-case digits; \<^verbatim>\<open>hex.EncodeToString\<close>
  writes the same digits in lower case.
\<close>

definition demo_pub_upper :: string where
  "demo_pub_upper = ''303132333435363738396162636465666768696A6B6C6D6E6F70717273747576''"

text \<open>A second author, and the same kind of event signed by that author.\<close>

definition demo_pub2 :: bytes where
  "demo_pub2 = ''vutsrqponmlkjihgfedcba9876543210''"

definition demo_event2 :: "string \<Rightarrow> string \<Rightarrow> string list \<Rightarrow> event" where
  "demo_event2 description timestamp parents =
     (demo_event description timestamp parents)
       \<lparr>Signature := hex_EncodeToString (demo_pub2 @ hex_EncodeToString
          (''note|'' @ description @ ''|{}|'' @ timestamp)),
        AuthorPubKey := hex_EncodeToString demo_pub2\<rparr>"

section \<open>Properties\<close>

subsection \<open>Hexadecimal encoding\<close>

lemma fromHexChar_hextable:
  assumes "n < 16"
  shows "fromHexChar (hextable ! n) = Some n"
proof -
  have "list_all (\<lambda>i. fromHexChar (hextable ! i) = Some i) [0..<16]"
    by code_simp
  with assms show ?thesis
    by (simp add: list_all_iff)
qed

lemma hex_Decode_Encode: "hex_DecodeString (hex_EncodeToString src) = Inr src"
proof (induction src)
  case Nil
  show ?case by (simp add: hex_EncodeToString_def)
next
  case (Cons v src)
  have "(of_char v :: nat) < 256" by simp
  then have "(of_char v :: nat) div 16 < 16" by arith
  with Cons show ?case
    by (simp add: hex_EncodeToString_def fromHexChar_hextable)
qed

lemma hex_Encode_inj: "hex_EncodeToString a = hex_EncodeToString b \<Longrightarrow> a = b"
proof -
  assume "hex_EncodeToString a = hex_EncodeToString b"
  then have "hex_DecodeString (hex_EncodeToString a) = hex_DecodeString (hex_EncodeToString b)"
    by simp
  then show "a = b" by (simp add: hex_Decode_Encode)
qed

lemma demo_payload_simps [simp]:
  "demo_payload None = ''null''"
  "demo_payload (Some fmempty) = ''{}''"
  by (simp_all add: demo_payload_def sorted_list_of_fset.rep_eq)

lemma verifyEvent_demo_event: "verifyEvent demo_lib (demo_event description timestamp parents) = Returns None"
  by (simp add: verifyEvent_def demo_event_def hex_Decode_Encode ed25519_Verify_def
      PublicKeySize_def demo_pub_def HashEvent_def demo_lib_def)

lemma verifyEvent_demo_event2:
  "verifyEvent demo_lib (demo_event2 description timestamp parents) = Returns None"
  by (simp add: verifyEvent_def demo_event2_def demo_event_def hex_Decode_Encode ed25519_Verify_def
      PublicKeySize_def demo_pub2_def HashEvent_def demo_lib_def)

lemma HashEvent_demo_event:
  "HashEvent demo_lib (demo_event description timestamp parents) =
     hex_EncodeToString (''note|'' @ description @ ''|{}|'' @ timestamp)"
  by (simp add: HashEvent_def demo_event_def demo_lib_def)

subsection \<open>A rejected event leaves the store alone\<close>

text \<open>
  C4. Whenever \<^verbatim>\<open>AddEvent\<close> returns an error, the store it returns is the store it was
  called on: neither \<^verbatim>\<open>events\<close> nor \<^verbatim>\<open>agents\<close> has changed, so the rejected event is not
  stored and no \<^verbatim>\<open>AgentInfo\<close> is created or updated.
\<close>

theorem AddEvent_error_unchanged:
  assumes "AddEvent L now bc event = (bc', Returns (Some err))"
  shows "bc' = bc \<and> events bc' = events bc \<and> agents bc' = agents bc"
  using assms
  by (auto simp: AddEvent_def Let_def split: outcome.splits option.splits)

theorem AddEvent_error_unchanged_witness:
  "AddEvent demo_lib 7 \<lparr>events = [''k'' \<mapsto> demo_event ''a'' ''T0'' []], agents = Map.empty\<rparr>
       ((demo_event ''b'' ''T0'' [])\<lparr>AuthorPubKey := ''zz''\<rparr>)
     = (\<lparr>events = [''k'' \<mapsto> demo_event ''a'' ''T0'' []], agents = Map.empty\<rparr>,
        Returns (Some (EventVerificationFailed (InvalidPublicKey (InvalidByteError CHR ''z'')))))
   \<and> events \<lparr>events = [''k'' \<mapsto> demo_event ''a'' ''T0'' []], agents = Map.empty\<rparr> ''k''
       = Some (demo_event ''a'' ''T0'' [])"
proof -
  have h: "AddEvent demo_lib 7 \<lparr>events = [''k'' \<mapsto> demo_event ''a'' ''T0'' []], agents = Map.empty\<rparr>
       ((demo_event ''b'' ''T0'' [])\<lparr>AuthorPubKey := ''zz''\<rparr>)
     = (\<lparr>events = [''k'' \<mapsto> demo_event ''a'' ''T0'' []], agents = Map.empty\<rparr>,
        Returns (Some (EventVerificationFailed (InvalidPublicKey (InvalidByteError CHR ''z'')))))"
    by (simp add: AddEvent_def verifyEvent_def fromHexChar_def)
  show ?thesis
    using h AddEvent_error_unchanged [OF h] by simp
qed

subsection \<open>The hash covers the payload only\<close>

lemma AddEvent_accepts:
  assumes "AddEvent L now bc event = (bc', Returns None)"
  shows "bc' = bc\<lparr>events := (events bc)(HashEvent L event \<mapsto> event),
                   agents := (agents bc)(AuthorPubKey event \<mapsto>
                     \<lparr>PubKey = AuthorPubKey event, LastEventHash = HashEvent L event,
                      LastSeen = now\<rparr>)\<rparr>"
    and "verifyEvent L event = Returns None"
  using assms
  by (auto simp: AddEvent_def Let_def split: outcome.splits option.splits)

lemma AddEvent_verified:
  assumes "verifyEvent L event = Returns None"
  shows "AddEvent L now bc event =
     (bc\<lparr>events := (events bc)(HashEvent L event \<mapsto> event),
         agents := (agents bc)(AuthorPubKey event \<mapsto>
           \<lparr>PubKey = AuthorPubKey event, LastEventHash = HashEvent L event, LastSeen = now\<rparr>)\<rparr>,
      Returns None)"
  using assms by (simp add: AddEvent_def Let_def)

text \<open>
  C2. \<^verbatim>\<open>HashEvent\<close> is the hex form of the digest of the marshalled payload, that is of
  the kind, the description, the map and the timestamp, and of nothing else: two events have
  the same hash exactly when their payloads have the same digest, the parents, the author
  key and the signature can be replaced without changing the hash, and two events with
  equal payloads have equal hashes. When both are accepted, one after the other, the second
  is stored under the hash of the first and replaces it; the set of stored hashes does not
  grow.
\<close>

theorem HashEvent_payload_only:
  "HashEvent L e = hex_EncodeToString (sha3_Sum512 L (json_Marshal L
       \<lparr>Type = Type (Data e), Description = Description (Data e), Payload = Payload (Data e),
        Timestamp = Timestamp (Data e)\<rparr>))
   \<and> (HashEvent L e2 = HashEvent L e1)
       = (sha3_Sum512 L (json_Marshal L (Data e2)) = sha3_Sum512 L (json_Marshal L (Data e1)))
   \<and> HashEvent L (e\<lparr>Parents := ps, Signature := sg, AuthorPubKey := pk\<rparr>) = HashEvent L e
   \<and> (Data e2 = Data e1 \<longrightarrow> HashEvent L e2 = HashEvent L e1)
   \<and> (Data e2 = Data e1
        \<and> AddEvent L now1 bc e1 = (bc1, Returns None)
        \<and> AddEvent L now2 bc1 e2 = (bc2, Returns None)
      \<longrightarrow> GetEvent bc1 (HashEvent L e1) = Some e1
        \<and> GetEvent bc2 (HashEvent L e1) = Some e2
        \<and> dom (events bc2) = dom (events bc1))"
proof (intro conjI impI)
  show "HashEvent L e = hex_EncodeToString (sha3_Sum512 L (json_Marshal L
       \<lparr>Type = Type (Data e), Description = Description (Data e), Payload = Payload (Data e),
        Timestamp = Timestamp (Data e)\<rparr>))"
    by (cases "Data e") (simp add: HashEvent_def)
next
  show "(HashEvent L e2 = HashEvent L e1)
       = (sha3_Sum512 L (json_Marshal L (Data e2)) = sha3_Sum512 L (json_Marshal L (Data e1)))"
    by (auto simp: HashEvent_def dest: hex_Encode_inj)
next
  show "HashEvent L (e\<lparr>Parents := ps, Signature := sg, AuthorPubKey := pk\<rparr>) = HashEvent L e"
    by (simp add: HashEvent_def)
next
  assume "Data e2 = Data e1"
  then show "HashEvent L e2 = HashEvent L e1"
    by (simp add: HashEvent_def)
next
  assume a: "Data e2 = Data e1
        \<and> AddEvent L now1 bc e1 = (bc1, Returns None)
        \<and> AddEvent L now2 bc1 e2 = (bc2, Returns None)"
  then have same: "HashEvent L e2 = HashEvent L e1"
    by (simp add: HashEvent_def)
  from a have a1: "AddEvent L now1 bc e1 = (bc1, Returns None)"
    and a2: "AddEvent L now2 bc1 e2 = (bc2, Returns None)"
    by simp_all
  show first: "GetEvent bc1 (HashEvent L e1) = Some e1"
    using AddEvent_accepts(1) [OF a1] by (simp add: GetEvent_def)
  show "GetEvent bc2 (HashEvent L e1) = Some e2"
    using AddEvent_accepts(1) [OF a2] same by (simp add: GetEvent_def)
  have "dom (events bc2) = insert (HashEvent L e2) (dom (events bc1))"
    using AddEvent_accepts(1) [OF a2] by simp
  moreover have "HashEvent L e1 \<in> dom (events bc1)"
    using first by (auto simp: GetEvent_def)
  ultimately show "dom (events bc2) = dom (events bc1)"
    using same by auto
qed

text \<open>
  On the instance: two accepted events with the same payload, different parents and
  different authors; and a change of any one of the four payload fields changes the hash.
\<close>

theorem HashEvent_payload_only_witness:
  "Data (demo_event2 ''a'' ''T0'' [''ff'']) = Data (demo_event ''a'' ''T0'' [])
   \<and> Parents (demo_event2 ''a'' ''T0'' [''ff'']) \<noteq> Parents (demo_event ''a'' ''T0'' [])
   \<and> AuthorPubKey (demo_event2 ''a'' ''T0'' [''ff'']) \<noteq> AuthorPubKey (demo_event ''a'' ''T0'' [])
   \<and> snd (AddEvent demo_lib 1 New (demo_event ''a'' ''T0'' [])) = Returns None
   \<and> snd (AddEvent demo_lib 2 (fst (AddEvent demo_lib 1 New (demo_event ''a'' ''T0'' [])))
        (demo_event2 ''a'' ''T0'' [''ff''])) = Returns None
   \<and> HashEvent demo_lib (demo_event2 ''a'' ''T0'' [''ff'']) = HashEvent demo_lib (demo_event ''a'' ''T0'' [])
   \<and> GetEvent (fst (AddEvent demo_lib 1 New (demo_event ''a'' ''T0'' [])))
        (HashEvent demo_lib (demo_event ''a'' ''T0'' []))
      = Some (demo_event ''a'' ''T0'' [])
   \<and> GetEvent (fst (AddEvent demo_lib 2 (fst (AddEvent demo_lib 1 New (demo_event ''a'' ''T0'' [])))
        (demo_event2 ''a'' ''T0'' [''ff'']))) (HashEvent demo_lib (demo_event ''a'' ''T0'' []))
      = Some (demo_event2 ''a'' ''T0'' [''ff''])
   \<and> dom (events (fst (AddEvent demo_lib 2 (fst (AddEvent demo_lib 1 New (demo_event ''a'' ''T0'' [])))
        (demo_event2 ''a'' ''T0'' [''ff''])))) = {HashEvent demo_lib (demo_event ''a'' ''T0'' [])}
   \<and> HashEvent demo_lib ((demo_event ''a'' ''T0'' [])
          \<lparr>Data := (Data (demo_event ''a'' ''T0'' []))\<lparr>Type := ''memo''\<rparr>\<rparr>)
        \<noteq> HashEvent demo_lib (demo_event ''a'' ''T0'' [])
   \<and> HashEvent demo_lib ((demo_event ''a'' ''T0'' [])
          \<lparr>Data := (Data (demo_event ''a'' ''T0'' []))\<lparr>Description := ''b''\<rparr>\<rparr>)
        \<noteq> HashEvent demo_lib (demo_event ''a'' ''T0'' [])
   \<and> HashEvent demo_lib ((demo_event ''a'' ''T0'' [])
          \<lparr>Data := (Data (demo_event ''a'' ''T0'' []))\<lparr>Payload := None\<rparr>\<rparr>)
        \<noteq> HashEvent demo_lib (demo_event ''a'' ''T0'' [])
   \<and> HashEvent demo_lib ((demo_event ''a'' ''T0'' [])
          \<lparr>Data := (Data (demo_event ''a'' ''T0'' []))\<lparr>Payload := Some (fmupd ''k'' ''v'' fmempty)\<rparr>\<rparr>)
        \<noteq> HashEvent demo_lib (demo_event ''a'' ''T0'' [])
   \<and> HashEvent demo_lib ((demo_event ''a'' ''T0'' [])
          \<lparr>Data := (Data (demo_event ''a'' ''T0'' []))\<lparr>Timestamp := ''T1''\<rparr>\<rparr>)
        \<noteq> HashEvent demo_lib (demo_event ''a'' ''T0'' [])"
proof -
  let ?e1 = "demo_event ''a'' ''T0'' []" and ?e2 = "demo_event2 ''a'' ''T0'' [''ff'']"
  let ?r1 = "AddEvent demo_lib 1 New ?e1"
  let ?r2 = "AddEvent demo_lib 2 (fst ?r1) ?e2"
  have d: "Data ?e2 = Data ?e1" by (simp add: demo_event2_def demo_event_def)
  have ps: "Parents ?e2 \<noteq> Parents ?e1" by (simp add: demo_event2_def demo_event_def)
  have "demo_pub2 \<noteq> demo_pub" by (simp add: demo_pub2_def demo_pub_def)
  then have pk: "AuthorPubKey ?e2 \<noteq> AuthorPubKey ?e1"
    by (auto simp: demo_event2_def demo_event_def dest: hex_Encode_inj)
  have s1: "snd ?r1 = Returns None"
    by (simp add: AddEvent_verified [OF verifyEvent_demo_event])
  have s2: "snd ?r2 = Returns None"
    by (simp add: AddEvent_verified [OF verifyEvent_demo_event2])
  have a1: "?r1 = (fst ?r1, Returns None)" using s1 by (simp add: prod_eq_iff)
  have a2: "?r2 = (fst ?r2, Returns None)" using s2 by (simp add: prod_eq_iff)
  have one: "dom (events (fst ?r1)) = {HashEvent demo_lib ?e1}"
    by (simp add: AddEvent_verified [OF verifyEvent_demo_event] New_def)
  have m: "json_Marshal demo_lib dt
      = Type dt @ ''|'' @ Description dt @ ''|'' @ demo_payload (Payload dt) @ ''|'' @ Timestamp dt"
    and h: "sha3_Sum512 demo_lib b = b" for dt b
    by (simp_all add: demo_lib_def)
  have p: "demo_payload (Some (fmupd ''k'' ''v'' fmempty)) = ''{k:v,}''"
    by (simp add: demo_payload_def sorted_list_of_fset.rep_eq)
  note inst = HashEvent_payload_only [where L = demo_lib and ?e1.0 = ?e1
      and ?now1.0 = 1 and bc = New and ?bc1.0 = "fst ?r1" and ?now2.0 = 2 and ?bc2.0 = "fst ?r2"]
  have f1: "HashEvent demo_lib (?e1\<lparr>Data := (Data ?e1)\<lparr>Type := ''memo''\<rparr>\<rparr>) \<noteq> HashEvent demo_lib ?e1"
    unfolding inst [where ?e2.0 = "?e1\<lparr>Data := (Data ?e1)\<lparr>Type := ''memo''\<rparr>\<rparr>", THEN conjunct2, THEN conjunct1]
    by (simp add: m h demo_event_def)
  have f2: "HashEvent demo_lib (?e1\<lparr>Data := (Data ?e1)\<lparr>Description := ''b''\<rparr>\<rparr>) \<noteq> HashEvent demo_lib ?e1"
    unfolding inst [where ?e2.0 = "?e1\<lparr>Data := (Data ?e1)\<lparr>Description := ''b''\<rparr>\<rparr>", THEN conjunct2, THEN conjunct1]
    by (simp add: m h demo_event_def)
  have f3: "HashEvent demo_lib (?e1\<lparr>Data := (Data ?e1)\<lparr>Payload := None\<rparr>\<rparr>) \<noteq> HashEvent demo_lib ?e1"
    unfolding inst [where ?e2.0 = "?e1\<lparr>Data := (Data ?e1)\<lparr>Payload := None\<rparr>\<rparr>", THEN conjunct2, THEN conjunct1]
    by (simp add: m h demo_event_def)
  have f4: "HashEvent demo_lib (?e1\<lparr>Data := (Data ?e1)\<lparr>Payload := Some (fmupd ''k'' ''v'' fmempty)\<rparr>\<rparr>)
      \<noteq> HashEvent demo_lib ?e1"
    unfolding inst [where ?e2.0 = "?e1\<lparr>Data := (Data ?e1)\<lparr>Payload := Some (fmupd ''k'' ''v'' fmempty)\<rparr>\<rparr>",
        THEN conjunct2, THEN conjunct1]
    by (simp add: m h p demo_event_def)
  have f5: "HashEvent demo_lib (?e1\<lparr>Data := (Data ?e1)\<lparr>Timestamp := ''T1''\<rparr>\<rparr>) \<noteq> HashEvent demo_lib ?e1"
    unfolding inst [where ?e2.0 = "?e1\<lparr>Data := (Data ?e1)\<lparr>Timestamp := ''T1''\<rparr>\<rparr>", THEN conjunct2, THEN conjunct1]
    by (simp add: m h demo_event_def)
  have stored: "GetEvent (fst ?r1) (HashEvent demo_lib ?e1) = Some ?e1
      \<and> GetEvent (fst ?r2) (HashEvent demo_lib ?e1) = Some ?e2
      \<and> dom (events (fst ?r2)) = dom (events (fst ?r1))"
    using inst [where ?e2.0 = ?e2] d a1 a2 by blast
  have same: "HashEvent demo_lib ?e2 = HashEvent demo_lib ?e1"
    using inst [where ?e2.0 = ?e2] d by blast
  from d ps pk s1 s2 same stored one f1 f2 f3 f4 f5 show ?thesis
    by (simp only: simp_thms)
qed

subsection \<open>Creating, adding and reading back\<close>

lemma CreateEvent_returns:
  assumes "length priv = PrivateKeySize"
  shows "CreateEvent L now bc eventType description payload parents pub priv =
     (bc, Returns (Inr
       \<lparr>Data = \<lparr>Type = eventType, Description = description, Payload = payload,
                Timestamp = time_Format_RFC3339 L now\<rparr>,
        Parents = parents,
        Signature = hex_EncodeToString (ed25519_sign L priv (hex_EncodeToString
          (sha3_Sum512 L (json_Marshal L
            \<lparr>Type = eventType, Description = description, Payload = payload,
             Timestamp = time_Format_RFC3339 L now\<rparr>)))),
        AuthorPubKey = hex_EncodeToString pub\<rparr>))"
  using assms
  by (simp add: CreateEvent_def signEvent_def ed25519_Sign_def HashEvent_def Let_def)

lemma verifyEvent_decoded:
  assumes "AuthorPubKey event = hex_EncodeToString pub"
    and "Signature event = hex_EncodeToString sg"
    and "length pub = PublicKeySize"
  shows "verifyEvent L event =
     (if ed25519_verify L pub (HashEvent L event) sg then Returns None
      else Returns (Some SignatureVerificationFailed))"
  using assms
  by (simp add: verifyEvent_def hex_Decode_Encode ed25519_Verify_def Let_def)

text \<open>
  C6. With a matching key pair (a 32-byte public key and a 64-byte private key such that
  every signature made with the private key verifies under the public key),
  \<^verbatim>\<open>CreateEvent\<close> returns an event, \<^verbatim>\<open>AddEvent\<close> accepts that event in any store, and
  \<^verbatim>\<open>GetEvent\<close> on its hash then finds an event with the payload that was created.
\<close>

theorem CreateEvent_AddEvent_GetEvent:
  assumes "length pub = PublicKeySize"
    and "length priv = PrivateKeySize"
    and "\<forall>m. ed25519_verify L pub m (ed25519_sign L priv m)"
  shows "\<exists>e bc'. CreateEvent L now bc eventType description payload parents pub priv
                   = (bc, Returns (Inr e))
    \<and> Data e = \<lparr>Type = eventType, Description = description, Payload = payload,
                 Timestamp = time_Format_RFC3339 L now\<rparr>
    \<and> AddEvent L now' bc2 e = (bc', Returns None)
    \<and> (\<exists>e'. GetEvent bc' (HashEvent L e) = Some e' \<and> Data e' = Data e)"
proof -
  let ?d = "\<lparr>Type = eventType, Description = description, Payload = payload,
             Timestamp = time_Format_RFC3339 L now\<rparr>"
  let ?sg = "ed25519_sign L priv (hex_EncodeToString (sha3_Sum512 L (json_Marshal L ?d)))"
  let ?e = "\<lparr>Data = ?d, Parents = parents, Signature = hex_EncodeToString ?sg,
             AuthorPubKey = hex_EncodeToString pub\<rparr>"
  have created: "CreateEvent L now bc eventType description payload parents pub priv
                   = (bc, Returns (Inr ?e))"
    by (rule CreateEvent_returns [OF assms(2)])
  have "verifyEvent L ?e =
     (if ed25519_verify L pub (HashEvent L ?e) ?sg then Returns None
      else Returns (Some SignatureVerificationFailed))"
    by (rule verifyEvent_decoded) (simp_all add: assms(1))
  moreover have "ed25519_verify L pub (HashEvent L ?e) ?sg"
    using assms(3) by (simp add: HashEvent_def)
  ultimately have verified: "verifyEvent L ?e = Returns None"
    by simp
  let ?bc' = "bc2\<lparr>events := (events bc2)(HashEvent L ?e \<mapsto> ?e),
         agents := (agents bc2)(AuthorPubKey ?e \<mapsto>
           \<lparr>PubKey = AuthorPubKey ?e, LastEventHash = HashEvent L ?e, LastSeen = now'\<rparr>)\<rparr>"
  have added: "AddEvent L now' bc2 ?e = (?bc', Returns None)"
    by (rule AddEvent_verified [OF verified])
  have found: "GetEvent ?bc' (HashEvent L ?e) = Some ?e"
    by (simp add: GetEvent_def)
  from created added found show ?thesis
    by (intro exI [of _ ?e] exI [of _ ?bc'] conjI) simp_all
qed

theorem CreateEvent_AddEvent_GetEvent_witness:
  "length demo_pub = PublicKeySize \<and> length demo_priv = PrivateKeySize
   \<and> (\<forall>m. ed25519_verify demo_lib demo_pub m (ed25519_sign demo_lib demo_priv m))
   \<and> (\<exists>e bc'. CreateEvent demo_lib 0 New ''init'' ''first'' (Some fmempty) [] demo_pub demo_priv
                   = (New, Returns (Inr e))
        \<and> Data e = \<lparr>Type = ''init'', Description = ''first'', Payload = Some fmempty,
                     Timestamp = ''T0''\<rparr>
        \<and> AddEvent demo_lib 1 New e = (bc', Returns None)
        \<and> (\<exists>e'. GetEvent bc' (HashEvent demo_lib e) = Some e' \<and> Data e' = Data e))"
proof -
  have h1: "length demo_pub = PublicKeySize"
    by (simp add: demo_pub_def PublicKeySize_def)
  have h2: "length demo_priv = PrivateKeySize"
    by (simp add: demo_priv_def PrivateKeySize_def)
  have h3: "\<forall>m. ed25519_verify demo_lib demo_pub m (ed25519_sign demo_lib demo_priv m)"
    by (simp add: demo_lib_def demo_pub_def demo_priv_def)
  have t: "time_Format_RFC3339 demo_lib 0 = ''T0''"
    by (simp add: demo_lib_def)
  show ?thesis
    using CreateEvent_AddEvent_GetEvent [OF h1 h2 h3, of 0 New "''init''" "''first''" "Some fmempty" "[]" 1 New]
      h1 h2 h3 unfolding t by simp
qed

subsection \<open>Rejected events\<close>

lemma AddEvent_key_length_panics:
  assumes "hex_DecodeString (AuthorPubKey event) = Inr pubKeyBytes"
    and "hex_DecodeString (Signature event) = Inr signatureBytes"
    and "length pubKeyBytes \<noteq> PublicKeySize"
  shows "AddEvent L now bc event = (bc, Panics (BadPublicKeyLength (length pubKeyBytes)))"
  using assms by (simp add: AddEvent_def verifyEvent_def ed25519_Verify_def)

text \<open>
  C3. \<^verbatim>\<open>verifyEvent\<close> decodes the author key and hands it to \<^verbatim>\<open>ed25519.Verify\<close> without
  looking at its length, and \<^verbatim>\<open>ed25519.Verify\<close> panics on a key that is not 32 bytes long.
  So the code does not return a verification error for every event that was changed after
  signing: \<^verbatim>\<open>CreateEvent\<close>, called with the empty public key and a 64-byte private key,
  returns a signed event whose author key is the empty string, which decodes without error
  to zero bytes; whatever payload that event is given afterwards, \<^verbatim>\<open>AddEvent\<close> panics and
  returns no error, for every library and every store.
\<close>

theorem AddEvent_tampered_panics:
  "CreateEvent L now bc eventType description payload parents [] demo_priv
     = (bc, Returns (Inr
         \<lparr>Data = \<lparr>Type = eventType, Description = description, Payload = payload,
                  Timestamp = time_Format_RFC3339 L now\<rparr>,
          Parents = parents,
          Signature = hex_EncodeToString (ed25519_sign L demo_priv (hex_EncodeToString
            (sha3_Sum512 L (json_Marshal L
              \<lparr>Type = eventType, Description = description, Payload = payload,
               Timestamp = time_Format_RFC3339 L now\<rparr>)))),
          AuthorPubKey = []\<rparr>))
   \<and> AddEvent L now' bc'
        (\<lparr>Data = \<lparr>Type = eventType, Description = description, Payload = payload,
                  Timestamp = time_Format_RFC3339 L now\<rparr>,
          Parents = parents,
          Signature = hex_EncodeToString (ed25519_sign L demo_priv (hex_EncodeToString
            (sha3_Sum512 L (json_Marshal L
              \<lparr>Type = eventType, Description = description, Payload = payload,
               Timestamp = time_Format_RFC3339 L now\<rparr>)))),
          AuthorPubKey = []\<rparr>\<lparr>Data := d'\<rparr>)
     = (bc', Panics (BadPublicKeyLength 0))"
proof -
  let ?d = "\<lparr>Type = eventType, Description = description, Payload = payload,
             Timestamp = time_Format_RFC3339 L now\<rparr>"
  let ?sg = "ed25519_sign L demo_priv (hex_EncodeToString (sha3_Sum512 L (json_Marshal L ?d)))"
  let ?e = "\<lparr>Data = ?d, Parents = parents, Signature = hex_EncodeToString ?sg, AuthorPubKey = []\<rparr>"
  have "length demo_priv = PrivateKeySize"
    by (simp add: demo_priv_def PrivateKeySize_def)
  then have created: "CreateEvent L now bc eventType description payload parents [] demo_priv
     = (bc, Returns (Inr ?e))"
    by (simp add: CreateEvent_returns) (simp add: hex_EncodeToString_def)
  have k: "hex_DecodeString (AuthorPubKey (?e\<lparr>Data := d'\<rparr>)) = Inr []"
    by simp
  have g: "hex_DecodeString (Signature (?e\<lparr>Data := d'\<rparr>)) = Inr ?sg"
    by (simp add: hex_Decode_Encode)
  have "AddEvent L now' bc' (?e\<lparr>Data := d'\<rparr>) = (bc', Panics (BadPublicKeyLength (length ([] :: bytes))))"
    by (rule AddEvent_key_length_panics [OF k g]) (simp add: PublicKeySize_def)
  with created show ?thesis by simp
qed

text \<open>
  With an author key of 32 bytes the check works. An event signed by \<^verbatim>\<open>CreateEvent\<close> whose
  payload is replaced afterwards is rejected when the new payload has another digest and
  the signature over the old hash verifies for no other message. \<^verbatim>\<open>AddEvent\<close> also returns
  a verification error when the author key is not valid hex, when the signature is not
  valid hex, and when \<^verbatim>\<open>ed25519.Verify\<close> returns false for the recomputed hash. In each
  case the store is returned as it was.
\<close>

lemma AddEvent_rejects:
  "(length pub = PublicKeySize
      \<and> CreateEvent L now bc eventType description payload parents pub priv = (bc, Returns (Inr e))
      \<and> sha3_Sum512 L (json_Marshal L d') \<noteq> sha3_Sum512 L (json_Marshal L (Data e))
      \<and> (\<forall>m. ed25519_verify L pub m (ed25519_sign L priv (HashEvent L e)) \<longrightarrow> m = HashEvent L e)
    \<longrightarrow> AddEvent L now' bc2 (e\<lparr>Data := d'\<rparr>)
          = (bc2, Returns (Some (EventVerificationFailed SignatureVerificationFailed))))
   \<and> (hex_DecodeString (AuthorPubKey ev1) = Inl herr1
    \<longrightarrow> AddEvent L now1 bc1 ev1
          = (bc1, Returns (Some (EventVerificationFailed (InvalidPublicKey herr1)))))
   \<and> (hex_DecodeString (Signature ev2) = Inl herr2
    \<longrightarrow> (\<exists>err. AddEvent L now2 bc3 ev2 = (bc3, Returns (Some (EventVerificationFailed err)))))
   \<and> (hex_DecodeString (AuthorPubKey ev3) = Inr pk3 \<and> hex_DecodeString (Signature ev3) = Inr sg3
      \<and> ed25519_Verify L pk3 (HashEvent L ev3) sg3 = Returns False
    \<longrightarrow> AddEvent L now3 bc4 ev3
          = (bc4, Returns (Some (EventVerificationFailed SignatureVerificationFailed))))"
proof (intro conjI impI)
  assume a: "length pub = PublicKeySize
      \<and> CreateEvent L now bc eventType description payload parents pub priv = (bc, Returns (Inr e))
      \<and> sha3_Sum512 L (json_Marshal L d') \<noteq> sha3_Sum512 L (json_Marshal L (Data e))
      \<and> (\<forall>m. ed25519_verify L pub m (ed25519_sign L priv (HashEvent L e)) \<longrightarrow> m = HashEvent L e)"
  then have len: "length priv = PrivateKeySize"
    by (auto simp: CreateEvent_def signEvent_def ed25519_Sign_def Let_def split: if_splits)
  let ?d = "\<lparr>Type = eventType, Description = description, Payload = payload,
             Timestamp = time_Format_RFC3339 L now\<rparr>"
  let ?sg = "ed25519_sign L priv (hex_EncodeToString (sha3_Sum512 L (json_Marshal L ?d)))"
  have e: "e = \<lparr>Data = ?d, Parents = parents, Signature = hex_EncodeToString ?sg,
             AuthorPubKey = hex_EncodeToString pub\<rparr>"
    using a CreateEvent_returns [OF len, of L now bc eventType description payload parents pub]
    by simp
  have sg: "?sg = ed25519_sign L priv (HashEvent L e)"
    by (simp add: e HashEvent_def)
  have "HashEvent L (e\<lparr>Data := d'\<rparr>) \<noteq> HashEvent L e"
    using a by (auto simp: HashEvent_def dest: hex_Encode_inj)
  then have no: "\<not> ed25519_verify L pub (HashEvent L (e\<lparr>Data := d'\<rparr>)) ?sg"
    using a unfolding sg by blast
  have "verifyEvent L (e\<lparr>Data := d'\<rparr>) =
     (if ed25519_verify L pub (HashEvent L (e\<lparr>Data := d'\<rparr>)) ?sg then Returns None
      else Returns (Some SignatureVerificationFailed))"
    by (rule verifyEvent_decoded) (use a in \<open>simp_all add: e\<close>)
  with no have "verifyEvent L (e\<lparr>Data := d'\<rparr>) = Returns (Some SignatureVerificationFailed)"
    by simp
  then show "AddEvent L now' bc2 (e\<lparr>Data := d'\<rparr>)
          = (bc2, Returns (Some (EventVerificationFailed SignatureVerificationFailed)))"
    by (simp add: AddEvent_def)
next
  assume "hex_DecodeString (AuthorPubKey ev1) = Inl herr1"
  then show "AddEvent L now1 bc1 ev1
          = (bc1, Returns (Some (EventVerificationFailed (InvalidPublicKey herr1))))"
    by (simp add: AddEvent_def verifyEvent_def)
next
  assume "hex_DecodeString (Signature ev2) = Inl herr2"
  then show "\<exists>err. AddEvent L now2 bc3 ev2 = (bc3, Returns (Some (EventVerificationFailed err)))"
    by (cases "hex_DecodeString (AuthorPubKey ev2)") (simp_all add: AddEvent_def verifyEvent_def)
next
  assume "hex_DecodeString (AuthorPubKey ev3) = Inr pk3 \<and> hex_DecodeString (Signature ev3) = Inr sg3
      \<and> ed25519_Verify L pk3 (HashEvent L ev3) sg3 = Returns False"
  then show "AddEvent L now3 bc4 ev3
          = (bc4, Returns (Some (EventVerificationFailed SignatureVerificationFailed)))"
    by (simp add: AddEvent_def verifyEvent_def)
qed

lemma AddEvent_rejects_example:
  "(length demo_pub = PublicKeySize
      \<and> CreateEvent demo_lib 0 New ''note'' ''a'' (Some fmempty) [] demo_pub demo_priv
          = (New, Returns (Inr (demo_event ''a'' ''T0'' [])))
      \<and> sha3_Sum512 demo_lib (json_Marshal demo_lib
            ((Data (demo_event ''a'' ''T0'' []))\<lparr>Description := ''b''\<rparr>))
          \<noteq> sha3_Sum512 demo_lib (json_Marshal demo_lib (Data (demo_event ''a'' ''T0'' [])))
      \<and> (\<nexists>m. ed25519_verify demo_lib demo_pub m
            (ed25519_sign demo_lib demo_priv (HashEvent demo_lib (demo_event ''a'' ''T0'' [])))
          \<and> m \<noteq> HashEvent demo_lib (demo_event ''a'' ''T0'' [])))
   \<and> AddEvent demo_lib 1 New
        ((demo_event ''a'' ''T0'' [])
          \<lparr>Data := (Data (demo_event ''a'' ''T0'' []))\<lparr>Description := ''b''\<rparr>\<rparr>)
      = (New, Returns (Some (EventVerificationFailed SignatureVerificationFailed)))
   \<and> hex_DecodeString (AuthorPubKey ((demo_event ''a'' ''T0'' [])\<lparr>AuthorPubKey := ''zz''\<rparr>))
      = Inl (InvalidByteError CHR ''z'')
   \<and> AddEvent demo_lib 1 New ((demo_event ''a'' ''T0'' [])\<lparr>AuthorPubKey := ''zz''\<rparr>)
      = (New, Returns (Some (EventVerificationFailed (InvalidPublicKey (InvalidByteError CHR ''z'')))))
   \<and> hex_DecodeString (Signature ((demo_event ''a'' ''T0'' [])\<lparr>Signature := ''abc''\<rparr>))
      = Inl ErrLength
   \<and> (\<exists>err. AddEvent demo_lib 1 New ((demo_event ''a'' ''T0'' [])\<lparr>Signature := ''abc''\<rparr>)
      = (New, Returns (Some (EventVerificationFailed err))))
   \<and> (hex_DecodeString (AuthorPubKey
          ((demo_event ''a'' ''T0'' [])\<lparr>Signature := hex_EncodeToString ''forged''\<rparr>))
        = Inr demo_pub
      \<and> hex_DecodeString (Signature
          ((demo_event ''a'' ''T0'' [])\<lparr>Signature := hex_EncodeToString ''forged''\<rparr>))
        = Inr ''forged''
      \<and> ed25519_Verify demo_lib demo_pub
          (HashEvent demo_lib
            ((demo_event ''a'' ''T0'' [])\<lparr>Signature := hex_EncodeToString ''forged''\<rparr>))
          ''forged''
        = Returns False)
   \<and> AddEvent demo_lib 1 New
        ((demo_event ''a'' ''T0'' [])\<lparr>Signature := hex_EncodeToString ''forged''\<rparr>)
      = (New, Returns (Some (EventVerificationFailed SignatureVerificationFailed)))"
proof -
  let ?e = "demo_event ''a'' ''T0'' []"
  have len: "length demo_pub = PublicKeySize"
    by (simp add: demo_pub_def PublicKeySize_def)
  have "length demo_priv = PrivateKeySize"
    by (simp add: demo_priv_def PrivateKeySize_def)
  then have created: "CreateEvent demo_lib 0 New ''note'' ''a'' (Some fmempty) [] demo_pub demo_priv
          = (New, Returns (Inr ?e))"
    by (simp add: CreateEvent_returns)
      (simp add: demo_event_def demo_lib_def demo_priv_def demo_pub_def)
  have digest: "sha3_Sum512 demo_lib (json_Marshal demo_lib ((Data ?e)\<lparr>Description := ''b''\<rparr>))
          \<noteq> sha3_Sum512 demo_lib (json_Marshal demo_lib (Data ?e))"
    by (simp add: demo_lib_def demo_event_def)
  have sound: "\<forall>m. ed25519_verify demo_lib demo_pub m
            (ed25519_sign demo_lib demo_priv (HashEvent demo_lib ?e))
          \<longrightarrow> m = HashEvent demo_lib ?e"
    by (simp add: demo_lib_def demo_priv_def demo_pub_def)
  have h1: "length demo_pub = PublicKeySize
      \<and> CreateEvent demo_lib 0 New ''note'' ''a'' (Some fmempty) [] demo_pub demo_priv
          = (New, Returns (Inr ?e))
      \<and> sha3_Sum512 demo_lib (json_Marshal demo_lib ((Data ?e)\<lparr>Description := ''b''\<rparr>))
          \<noteq> sha3_Sum512 demo_lib (json_Marshal demo_lib (Data ?e))
      \<and> (\<forall>m. ed25519_verify demo_lib demo_pub m
            (ed25519_sign demo_lib demo_priv (HashEvent demo_lib ?e))
          \<longrightarrow> m = HashEvent demo_lib ?e)"
    using len created digest sound by blast
  have h2: "hex_DecodeString (AuthorPubKey (?e\<lparr>AuthorPubKey := ''zz''\<rparr>))
      = Inl (InvalidByteError CHR ''z'')"
    by (simp add: fromHexChar_def)
  have h3: "hex_DecodeString (Signature (?e\<lparr>Signature := ''abc''\<rparr>)) = Inl ErrLength"
    by (simp add: fromHexChar_def)
  have h4: "hex_DecodeString (AuthorPubKey (?e\<lparr>Signature := hex_EncodeToString ''forged''\<rparr>))
        = Inr demo_pub
      \<and> hex_DecodeString (Signature (?e\<lparr>Signature := hex_EncodeToString ''forged''\<rparr>))
        = Inr ''forged''
      \<and> ed25519_Verify demo_lib demo_pub
          (HashEvent demo_lib (?e\<lparr>Signature := hex_EncodeToString ''forged''\<rparr>)) ''forged''
        = Returns False"
    by (simp add: hex_Decode_Encode demo_event_def ed25519_Verify_def len)
      (simp add: demo_lib_def demo_pub_def)
  note inst = AddEvent_rejects [of demo_pub demo_lib 0 New "''note''" "''a''" "Some fmempty" "[]"
      demo_priv ?e "(Data ?e)\<lparr>Description := ''b''\<rparr>" 1 New
      "?e\<lparr>AuthorPubKey := ''zz''\<rparr>" "InvalidByteError CHR ''z''" 1 New
      "?e\<lparr>Signature := ''abc''\<rparr>" ErrLength 1 New
      "?e\<lparr>Signature := hex_EncodeToString ''forged''\<rparr>" demo_pub "''forged''" 1 New]
  show ?thesis
    using inst h1 h2 h3 h4 by blast
qed

subsection \<open>What CreateEvent returns\<close>

text \<open>
  Against C10 as it is written. \<^verbatim>\<open>ed25519.Sign\<close> panics on a private key that is not
  64 bytes long, so a call of \<^verbatim>\<open>CreateEvent\<close> with the empty private key yields no event.
\<close>

theorem CreateEvent_without_key_panics:
  "CreateEvent demo_lib 0 New ''note'' ''a'' (Some fmempty) [] demo_pub []
     = (New, Panics (BadPrivateKeyLength 0))"
  by (simp add: CreateEvent_def signEvent_def ed25519_Sign_def PrivateKeySize_def)

text \<open>
  C10, as the code has it. \<^verbatim>\<open>signEvent\<close> never returns an error and neither does
  \<^verbatim>\<open>CreateEvent\<close>. A call with a 64-byte private key returns the event with every field
  set: the payload with the formatted time, the parents, the hex author key, and the hex
  signature over the hash of the payload. A call with a private key of another length
  panics inside \<^verbatim>\<open>ed25519.Sign\<close>.
\<close>

theorem CreateEvent_never_returns_error:
  "(\<nexists>err. signEvent L event priv = Returns (Inl err))
   \<and> (\<nexists>err. snd (CreateEvent L now bc eventType description payload parents pub priv)
          = Returns (Inl err))
   \<and> snd (CreateEvent L now bc eventType description payload parents pub priv) =
       (if length priv = PrivateKeySize
        then Returns (Inr
          \<lparr>Data = \<lparr>Type = eventType, Description = description, Payload = payload,
                   Timestamp = time_Format_RFC3339 L now\<rparr>,
           Parents = parents,
           Signature = hex_EncodeToString (ed25519_sign L priv (hex_EncodeToString
             (sha3_Sum512 L (json_Marshal L
               \<lparr>Type = eventType, Description = description, Payload = payload,
                Timestamp = time_Format_RFC3339 L now\<rparr>)))),
           AuthorPubKey = hex_EncodeToString pub\<rparr>)
        else Panics (BadPrivateKeyLength (length priv)))"
proof -
  have s: "\<nexists>err. signEvent L ev priv = Returns (Inl err)" for ev
    by (simp add: signEvent_def Let_def split: outcome.splits)
  have c: "\<nexists>err. snd (CreateEvent L now bc eventType description payload parents pub priv)
          = Returns (Inl err)"
    using s by (auto simp: CreateEvent_def Let_def split: outcome.splits sum.splits)
  have "snd (CreateEvent L now bc eventType description payload parents pub priv) =
       (if length priv = PrivateKeySize
        then Returns (Inr
          \<lparr>Data = \<lparr>Type = eventType, Description = description, Payload = payload,
                   Timestamp = time_Format_RFC3339 L now\<rparr>,
           Parents = parents,
           Signature = hex_EncodeToString (ed25519_sign L priv (hex_EncodeToString
             (sha3_Sum512 L (json_Marshal L
               \<lparr>Type = eventType, Description = description, Payload = payload,
                Timestamp = time_Format_RFC3339 L now\<rparr>)))),
           AuthorPubKey = hex_EncodeToString pub\<rparr>)
        else Panics (BadPrivateKeyLength (length priv)))"
    by (simp add: CreateEvent_returns)
      (simp add: CreateEvent_def signEvent_def ed25519_Sign_def Let_def)
  with s c show ?thesis by blast
qed

text \<open>
  C8. \<^verbatim>\<open>CreateEvent\<close> returns the store it was called on, so both maps are as before;
  its result is the same whatever store it is called on; and it returns the error
  \<open>err\<close> exactly when \<^verbatim>\<open>signEvent\<close>, called on the unsigned event, returns the error
  that \<open>err\<close> wraps.
\<close>

theorem CreateEvent_frame:
  "fst (CreateEvent L now bc eventType description payload parents pub priv) = bc
   \<and> events (fst (CreateEvent L now bc eventType description payload parents pub priv)) = events bc
   \<and> agents (fst (CreateEvent L now bc eventType description payload parents pub priv)) = agents bc
   \<and> snd (CreateEvent L now bc eventType description payload parents pub priv)
       = snd (CreateEvent L now bc' eventType description payload parents pub priv)
   \<and> (snd (CreateEvent L now bc eventType description payload parents pub priv) = Returns (Inl err))
       = (\<exists>err'. err = FailedToSignEvent err'
            \<and> signEvent L
                 \<lparr>Data = \<lparr>Type = eventType, Description = description, Payload = payload,
                          Timestamp = time_Format_RFC3339 L now\<rparr>,
                  Parents = parents, Signature = [], AuthorPubKey = hex_EncodeToString pub\<rparr>
                 priv = Returns (Inl err'))"
proof -
  have f: "fst (CreateEvent L now b eventType description payload parents pub priv) = b" for b
    by (simp add: CreateEvent_def Let_def split: outcome.splits sum.splits)
  have s: "snd (CreateEvent L now bc eventType description payload parents pub priv)
       = snd (CreateEvent L now bc' eventType description payload parents pub priv)"
    by (simp add: CreateEvent_def Let_def split: outcome.splits sum.splits)
  have e: "(snd (CreateEvent L now bc eventType description payload parents pub priv) = Returns (Inl err))
       = (\<exists>err'. err = FailedToSignEvent err'
            \<and> signEvent L
                 \<lparr>Data = \<lparr>Type = eventType, Description = description, Payload = payload,
                          Timestamp = time_Format_RFC3339 L now\<rparr>,
                  Parents = parents, Signature = [], AuthorPubKey = hex_EncodeToString pub\<rparr>
                 priv = Returns (Inl err'))"
    by (auto simp: CreateEvent_def Let_def split: outcome.splits sum.splits)
  from f s e show ?thesis by simp
qed

subsection \<open>The agent registry\<close>

lemma AddEvents_agents_dom:
  "AddEvents L bc es = Some bc' \<Longrightarrow> dom (agents bc) \<subseteq> dom (agents bc')"
proof (induction es arbitrary: bc)
  case Nil
  then show ?case by simp
next
  case (Cons x es)
  obtain now e where x: "x = (now, e)" by (cases x)
  from Cons.prems obtain bc1 where
    a: "AddEvent L now bc e = (bc1, Returns None)" and r: "AddEvents L bc1 es = Some bc'"
    by (auto simp: x split: prod.splits outcome.splits option.splits)
  have "dom (agents bc) \<subseteq> dom (agents bc1)"
    using AddEvent_accepts(1) [OF a] by auto
  with Cons.IH [OF r] show ?case by blast
qed

lemma AddEvents_agents_same_key:
  assumes "AddEvents L bc es = Some bc'"
    and "es \<noteq> []"
    and "\<forall>(now, e) \<in> set es. AuthorPubKey e = k"
  shows "agents bc' = (agents bc)(k \<mapsto>
     \<lparr>PubKey = k, LastEventHash = HashEvent L (snd (last es)), LastSeen = fst (last es)\<rparr>)"
  using assms
proof (induction es arbitrary: bc)
  case Nil
  then show ?case by simp
next
  case (Cons x es)
  obtain now e where x: "x = (now, e)" by (cases x)
  from Cons.prems(1) obtain bc1 where
    a: "AddEvent L now bc e = (bc1, Returns None)" and r: "AddEvents L bc1 es = Some bc'"
    by (auto simp: x split: prod.splits outcome.splits option.splits)
  have k: "AuthorPubKey e = k"
    using Cons.prems(3) by (simp add: x)
  have one: "agents bc1 = (agents bc)(k \<mapsto>
     \<lparr>PubKey = k, LastEventHash = HashEvent L e, LastSeen = now\<rparr>)"
    using AddEvent_accepts(1) [OF a] k by simp
  show ?case
  proof (cases "es = []")
    case True
    with r one show ?thesis by (simp add: x)
  next
    case False
    have "\<forall>(now, e) \<in> set es. AuthorPubKey e = k"
      using Cons.prems(3) by simp
    then have ih: "agents bc' = (agents bc1)(k \<mapsto>
       \<lparr>PubKey = k, LastEventHash = HashEvent L (snd (last es)), LastSeen = fst (last es)\<rparr>)"
      by (rule Cons.IH [OF r False])
    show ?thesis
      unfolding ih one using False by simp
  qed
qed

lemma hex_Decode_demo_pub_upper: "hex_DecodeString demo_pub_upper = Inr demo_pub"
  unfolding demo_pub_upper_def demo_pub_def by code_simp

text \<open>
  Against C7 as it is written. \<^verbatim>\<open>verifyEvent\<close> decodes the author key, and
  \<^verbatim>\<open>hex.DecodeString\<close> reads digits of either case, but \<^verbatim>\<open>AddEvent\<close> files the agent
  under the string as the event carries it. Two events signed with one key, one carrying
  the key in lower-case hex and one in upper-case hex, are both accepted, and the registry
  then holds two entries for the one public key.
\<close>

theorem GetAgents_two_spellings:
  "hex_DecodeString (hex_EncodeToString demo_pub) = Inr demo_pub
   \<and> hex_DecodeString demo_pub_upper = Inr demo_pub
   \<and> hex_EncodeToString demo_pub \<noteq> demo_pub_upper
   \<and> (\<exists>bc'. AddEvents demo_lib New
          [(1, demo_event ''a'' ''T0'' []),
           (2, (demo_event ''b'' ''T1'' [])\<lparr>AuthorPubKey := demo_pub_upper\<rparr>)] = Some bc'
        \<and> dom (GetAgents bc') = {hex_EncodeToString demo_pub, demo_pub_upper})"
proof -
  have ne: "hex_EncodeToString demo_pub \<noteq> demo_pub_upper"
    by (simp add: demo_pub_upper_def demo_pub_def hex_EncodeToString_def hextable_def)
  have v: "verifyEvent demo_lib ((demo_event ''b'' ''T1'' [])\<lparr>AuthorPubKey := demo_pub_upper\<rparr>)
      = Returns None"
    by (simp add: verifyEvent_def hex_Decode_demo_pub_upper)
      (simp add: demo_event_def hex_Decode_Encode ed25519_Verify_def PublicKeySize_def
        HashEvent_def demo_lib_def demo_pub_def)
  have k: "AuthorPubKey (demo_event d t ps) = hex_EncodeToString demo_pub" for d t ps
    by (simp add: demo_event_def)
  let ?bc' = "\<lparr>events = [HashEvent demo_lib (demo_event ''a'' ''T0'' []) \<mapsto> demo_event ''a'' ''T0'' [],
        HashEvent demo_lib ((demo_event ''b'' ''T1'' [])\<lparr>AuthorPubKey := demo_pub_upper\<rparr>) \<mapsto>
          (demo_event ''b'' ''T1'' [])\<lparr>AuthorPubKey := demo_pub_upper\<rparr>],
      agents = [hex_EncodeToString demo_pub \<mapsto>
          \<lparr>PubKey = hex_EncodeToString demo_pub,
           LastEventHash = HashEvent demo_lib (demo_event ''a'' ''T0'' []), LastSeen = 1\<rparr>,
        demo_pub_upper \<mapsto>
          \<lparr>PubKey = demo_pub_upper,
           LastEventHash = HashEvent demo_lib
             ((demo_event ''b'' ''T1'' [])\<lparr>AuthorPubKey := demo_pub_upper\<rparr>),
           LastSeen = 2\<rparr>]\<rparr>"
  have "AddEvents demo_lib New
          [(1, demo_event ''a'' ''T0'' []),
           (2, (demo_event ''b'' ''T1'' [])\<lparr>AuthorPubKey := demo_pub_upper\<rparr>)] = Some ?bc'"
    by (simp add: AddEvent_verified [OF verifyEvent_demo_event] AddEvent_verified [OF v] New_def k)
  moreover have "dom (GetAgents ?bc') = {hex_EncodeToString demo_pub, demo_pub_upper}"
    by (auto simp: GetAgents_def split: if_splits)
  ultimately have "\<exists>bc'. AddEvents demo_lib New
          [(1, demo_event ''a'' ''T0'' []),
           (2, (demo_event ''b'' ''T1'' [])\<lparr>AuthorPubKey := demo_pub_upper\<rparr>)] = Some bc'
        \<and> dom (GetAgents bc') = {hex_EncodeToString demo_pub, demo_pub_upper}"
    by blast
  with ne show ?thesis
    by (simp add: hex_Decode_Encode hex_Decode_demo_pub_upper)
qed

text \<open>
  C7, as the code has it. The registry is keyed by the author key string. After a non-empty
  sequence of accepted events that all carry the author key string \<open>k\<close>, the registry
  returned by \<^verbatim>\<open>GetAgents\<close> has one entry under \<open>k\<close>, holding the hash and the time of
  the last event of the sequence; every other key has the entry it had before, so from the
  empty registry \<open>k\<close> is the only key. After any sequence of accepted events every key that
  had an entry still has one. Every event that \<^verbatim>\<open>CreateEvent\<close> makes for a public key
  carries the same string, the lower-case hex form of the key.
\<close>

theorem GetAgents_last_event:
  assumes "AddEvents L bc es = Some bc'"
    and "es \<noteq> []"
    and "\<forall>(now, e) \<in> set es. AuthorPubKey e = k"
  shows "GetAgents bc' k = Some
       \<lparr>PubKey = k, LastEventHash = HashEvent L (snd (last es)), LastSeen = fst (last es)\<rparr>
    \<and> (\<forall>k'. k' \<noteq> k \<longrightarrow> GetAgents bc' k' = agents bc k')
    \<and> (agents bc = Map.empty \<longrightarrow> dom (GetAgents bc') = {k})
    \<and> (AddEvents L bc2 es2 = Some bc2' \<longrightarrow> dom (agents bc2) \<subseteq> dom (GetAgents bc2'))
    \<and> (CreateEvent L now0 bc0 eventType description payload parents pub priv
          = (bc0, Returns (Inr e0))
        \<longrightarrow> AuthorPubKey e0 = hex_EncodeToString pub)"
proof -
  have made: "CreateEvent L now0 bc0 eventType description payload parents pub priv
          = (bc0, Returns (Inr e0))
        \<longrightarrow> AuthorPubKey e0 = hex_EncodeToString pub"
    by (auto simp: CreateEvent_def Let_def split: outcome.splits sum.splits)
  let ?info = "\<lparr>PubKey = k, LastEventHash = HashEvent L (snd (last es)), LastSeen = fst (last es)\<rparr>"
  have eq: "GetAgents bc' k' = ((agents bc)(k \<mapsto> ?info)) k'" for k'
    unfolding GetAgents_def AddEvents_agents_same_key [OF assms] by (rule refl)
  have entry: "GetAgents bc' k = Some ?info"
    by (simp add: eq)
  have others: "\<forall>k'. k' \<noteq> k \<longrightarrow> GetAgents bc' k' = agents bc k'"
    by (simp add: eq)
  have only: "agents bc = Map.empty \<longrightarrow> dom (GetAgents bc') = {k}"
    by (auto simp: eq dom_def)
  have kept: "AddEvents L bc2 es2 = Some bc2' \<longrightarrow> dom (agents bc2) \<subseteq> dom (GetAgents bc2')"
    using AddEvents_agents_dom [of L bc2 es2 bc2'] by (simp add: GetAgents_def)
  from entry others only kept made show ?thesis by blast
qed

theorem GetAgents_last_event_witness:
  "AddEvents demo_lib New [(1, demo_event ''a'' ''T0'' []), (2, demo_event ''b'' ''T1'' [''ff''])]
     = Some \<lparr>events = [HashEvent demo_lib (demo_event ''a'' ''T0'' []) \<mapsto> demo_event ''a'' ''T0'' [],
                        HashEvent demo_lib (demo_event ''b'' ''T1'' [''ff'']) \<mapsto>
                          demo_event ''b'' ''T1'' [''ff'']],
             agents = [hex_EncodeToString demo_pub \<mapsto>
               \<lparr>PubKey = hex_EncodeToString demo_pub,
                LastEventHash = HashEvent demo_lib (demo_event ''b'' ''T1'' [''ff'']),
                LastSeen = 2\<rparr>]\<rparr>
   \<and> list_all (\<lambda>(now, e). AuthorPubKey e = hex_EncodeToString demo_pub)
        [(1, demo_event ''a'' ''T0'' []), (2, demo_event ''b'' ''T1'' [''ff''])]
   \<and> GetAgents \<lparr>events = [HashEvent demo_lib (demo_event ''a'' ''T0'' []) \<mapsto> demo_event ''a'' ''T0'' [],
                        HashEvent demo_lib (demo_event ''b'' ''T1'' [''ff'']) \<mapsto>
                          demo_event ''b'' ''T1'' [''ff'']],
             agents = [hex_EncodeToString demo_pub \<mapsto>
               \<lparr>PubKey = hex_EncodeToString demo_pub,
                LastEventHash = HashEvent demo_lib (demo_event ''b'' ''T1'' [''ff'']),
                LastSeen = 2\<rparr>]\<rparr> (hex_EncodeToString demo_pub)
     = Some \<lparr>PubKey = hex_EncodeToString demo_pub,
             LastEventHash = HashEvent demo_lib (demo_event ''b'' ''T1'' [''ff'']),
             LastSeen = 2\<rparr>
   \<and> agents New = Map.empty
   \<and> dom (GetAgents \<lparr>events = [HashEvent demo_lib (demo_event ''a'' ''T0'' []) \<mapsto> demo_event ''a'' ''T0'' [],
                        HashEvent demo_lib (demo_event ''b'' ''T1'' [''ff'']) \<mapsto>
                          demo_event ''b'' ''T1'' [''ff'']],
             agents = [hex_EncodeToString demo_pub \<mapsto>
               \<lparr>PubKey = hex_EncodeToString demo_pub,
                LastEventHash = HashEvent demo_lib (demo_event ''b'' ''T1'' [''ff'']),
                LastSeen = 2\<rparr>]\<rparr>) = {hex_EncodeToString demo_pub}
   \<and> CreateEvent demo_lib 0 New ''note'' ''a'' (Some fmempty) [] demo_pub demo_priv
       = (New, Returns (Inr (demo_event ''a'' ''T0'' [])))
   \<and> AuthorPubKey (demo_event ''a'' ''T0'' []) = hex_EncodeToString demo_pub"
proof -
  let ?es = "[(1, demo_event ''a'' ''T0'' []), (2, demo_event ''b'' ''T1'' [''ff''])]"
  let ?bc' = "\<lparr>events = [HashEvent demo_lib (demo_event ''a'' ''T0'' []) \<mapsto> demo_event ''a'' ''T0'' [],
                        HashEvent demo_lib (demo_event ''b'' ''T1'' [''ff'']) \<mapsto>
                          demo_event ''b'' ''T1'' [''ff'']],
             agents = [hex_EncodeToString demo_pub \<mapsto>
               \<lparr>PubKey = hex_EncodeToString demo_pub,
                LastEventHash = HashEvent demo_lib (demo_event ''b'' ''T1'' [''ff'']),
                LastSeen = 2\<rparr>]\<rparr>"
  have k: "AuthorPubKey (demo_event d t ps) = hex_EncodeToString demo_pub" for d t ps
    by (simp add: demo_event_def)
  have h1: "AddEvents demo_lib New ?es = Some ?bc'"
    by (simp add: AddEvent_verified [OF verifyEvent_demo_event] New_def k)
  have h2: "?es \<noteq> []" by simp
  have h3: "\<forall>(now, e) \<in> set ?es. AuthorPubKey e = hex_EncodeToString demo_pub"
    by (simp add: k)
  have h4: "agents New = Map.empty" by (simp add: New_def)
  have "length demo_priv = PrivateKeySize"
    by (simp add: demo_priv_def PrivateKeySize_def)
  then have h5: "CreateEvent demo_lib 0 New ''note'' ''a'' (Some fmempty) [] demo_pub demo_priv
          = (New, Returns (Inr (demo_event ''a'' ''T0'' [])))"
    by (simp add: CreateEvent_returns)
      (simp add: demo_event_def demo_lib_def demo_priv_def demo_pub_def)
  show ?thesis
    using GetAgents_last_event [OF h1 h2 h3, where ?bc2.0 = New and ?es2.0 = ?es and ?bc2' = ?bc'
        and ?now0.0 = 0 and ?bc0.0 = New and eventType = "''note''" and description = "''a''"
        and payload = "Some fmempty" and parents = "[]" and pub = demo_pub and priv = demo_priv
        and ?e0.0 = "demo_event ''a'' ''T0'' []"]
      h1 h3 h4 h5 by simp
qed

subsection \<open>Listing recent events\<close>

lemma length_map_filter_range:
  assumes "range_order m ks"
  shows "length (List.map_filter m ks) = card (dom m)"
proof -
  have "set ks \<subseteq> dom m \<Longrightarrow> length (List.map_filter m ks) = length ks" for ks
    by (induction ks) (auto simp: List.map_filter_simps)
  then have "length (List.map_filter m ks) = length ks"
    using assms by (simp add: range_order_def)
  also have "length ks = card (dom m)"
    using assms distinct_card [of ks] by (simp add: range_order_def)
  finally show ?thesis .
qed

text \<open>
  C9. For a limit that is not negative \<^verbatim>\<open>GetRecentEvents\<close> returns, whatever order the
  \<^verbatim>\<open>range\<close> loop takes, and the result has \<open>min limit n\<close> elements for a store of \<open>n\<close>
  events. For the limit \<open>-1\<close> and a store of one event the lower bound of the slice
  expression is 2, beyond the length 1, and the call panics.
\<close>

theorem GetRecentEvents_total:
  "(range_order (events bc) ks \<and> 0 \<le> limit \<longrightarrow>
      (\<exists>r. GetRecentEvents bc ks limit = Returns r
         \<and> length r = min (nat limit) (card (dom (events bc)))))
   \<and> range_order [''k'' \<mapsto> demo_event ''a'' ''T0'' []] [''k'']
   \<and> GetRecentEvents \<lparr>events = [''k'' \<mapsto> demo_event ''a'' ''T0'' []], agents = Map.empty\<rparr>
        [''k''] (- 1) = Panics (SliceBoundsOutOfRange 2 1)"
proof (intro conjI impI)
  assume a: "range_order (events bc) ks \<and> 0 \<le> limit"
  let ?evs = "List.map_filter (events bc) ks"
  have n: "length ?evs = card (dom (events bc))"
    using a by (simp add: length_map_filter_range)
  show "\<exists>r. GetRecentEvents bc ks limit = Returns r
         \<and> length r = min (nat limit) (card (dom (events bc)))"
  proof (cases "int (length ?evs) > limit")
    case True
    with a have "GetRecentEvents bc ks limit = Returns (drop (nat (int (length ?evs) - limit)) ?evs)"
      by (simp add: GetRecentEvents_def Let_def)
    moreover have "length (drop (nat (int (length ?evs) - limit)) ?evs)
        = min (nat limit) (card (dom (events bc)))"
      using True a n by auto
    ultimately show ?thesis by blast
  next
    case False
    then have "GetRecentEvents bc ks limit = Returns ?evs"
      by (simp add: GetRecentEvents_def Let_def)
    moreover have "length ?evs = min (nat limit) (card (dom (events bc)))"
      using False a n by auto
    ultimately show ?thesis by blast
  qed
next
  show "range_order [''k'' \<mapsto> demo_event ''a'' ''T0'' []] [''k'']"
    by (simp add: range_order_def)
next
  show "GetRecentEvents \<lparr>events = [''k'' \<mapsto> demo_event ''a'' ''T0'' []], agents = Map.empty\<rparr>
        [''k''] (- 1) = Panics (SliceBoundsOutOfRange 2 1)"
    by (simp add: GetRecentEvents_def List.map_filter_simps)
qed

theorem GetRecentEvents_total_witness:
  "range_order (events \<lparr>events = [''k'' \<mapsto> demo_event ''a'' ''T0'' [], ''m'' \<mapsto> demo_event ''b'' ''T1'' []],
                        agents = Map.empty\<rparr>) [''m'', ''k'']
   \<and> (0::int) \<le> 1
   \<and> (\<exists>r. GetRecentEvents \<lparr>events = [''k'' \<mapsto> demo_event ''a'' ''T0'' [],
                                       ''m'' \<mapsto> demo_event ''b'' ''T1'' []],
                             agents = Map.empty\<rparr> [''m'', ''k''] 1 = Returns r
         \<and> length r = 1)"
proof -
  let ?bc = "\<lparr>events = [''k'' \<mapsto> demo_event ''a'' ''T0'' [], ''m'' \<mapsto> demo_event ''b'' ''T1'' []],
              agents = Map.empty\<rparr>"
  have h: "range_order (events ?bc) [''m'', ''k'']"
    by (auto simp: range_order_def)
  have c: "card (dom (events ?bc)) = 2"
    by simp
  show ?thesis
    using GetRecentEvents_total [of ?bc "[''m'', ''k'']" 1] h unfolding c by simp
qed

text \<open>
  C1. \<^verbatim>\<open>GetRecentEvents\<close> does not sort: it returns the last \<open>limit\<close> events in the order
  of the \<^verbatim>\<open>range\<close> loop. In the store reached by adding an event stamped 1 January and then
  an event stamped 2 January, a loop that meets them in that order makes
  \<^verbatim>\<open>GetRecentEvents(2)\<close> return the older event first, and a loop that meets them in the
  other order makes \<^verbatim>\<open>GetRecentEvents(1)\<close> return the older event alone.
\<close>

theorem GetRecentEvents_not_ordered:
  "AddEvents demo_lib New
      [(1, demo_event ''a'' ''2024-01-01T00:00:00Z'' []), (2, demo_event ''b'' ''2024-01-02T00:00:00Z'' [])]
     = Some \<lparr>events = [HashEvent demo_lib (demo_event ''a'' ''2024-01-01T00:00:00Z'' []) \<mapsto>
                          demo_event ''a'' ''2024-01-01T00:00:00Z'' [],
                        HashEvent demo_lib (demo_event ''b'' ''2024-01-02T00:00:00Z'' []) \<mapsto>
                          demo_event ''b'' ''2024-01-02T00:00:00Z'' []],
             agents = [hex_EncodeToString demo_pub \<mapsto>
               \<lparr>PubKey = hex_EncodeToString demo_pub,
                LastEventHash = HashEvent demo_lib (demo_event ''b'' ''2024-01-02T00:00:00Z'' []),
                LastSeen = 2\<rparr>]\<rparr>
   \<and> range_order
        [HashEvent demo_lib (demo_event ''a'' ''2024-01-01T00:00:00Z'' []) \<mapsto>
           demo_event ''a'' ''2024-01-01T00:00:00Z'' [],
         HashEvent demo_lib (demo_event ''b'' ''2024-01-02T00:00:00Z'' []) \<mapsto>
           demo_event ''b'' ''2024-01-02T00:00:00Z'' []]
        [HashEvent demo_lib (demo_event ''a'' ''2024-01-01T00:00:00Z'' []),
         HashEvent demo_lib (demo_event ''b'' ''2024-01-02T00:00:00Z'' [])]
   \<and> GetRecentEvents
        \<lparr>events = [HashEvent demo_lib (demo_event ''a'' ''2024-01-01T00:00:00Z'' []) \<mapsto>
                     demo_event ''a'' ''2024-01-01T00:00:00Z'' [],
                   HashEvent demo_lib (demo_event ''b'' ''2024-01-02T00:00:00Z'' []) \<mapsto>
                     demo_event ''b'' ''2024-01-02T00:00:00Z'' []],
         agents = [hex_EncodeToString demo_pub \<mapsto>
               \<lparr>PubKey = hex_EncodeToString demo_pub,
                LastEventHash = HashEvent demo_lib (demo_event ''b'' ''2024-01-02T00:00:00Z'' []),
                LastSeen = 2\<rparr>]\<rparr>
        [HashEvent demo_lib (demo_event ''a'' ''2024-01-01T00:00:00Z'' []),
         HashEvent demo_lib (demo_event ''b'' ''2024-01-02T00:00:00Z'' [])] 2
      = Returns [demo_event ''a'' ''2024-01-01T00:00:00Z'' [], demo_event ''b'' ''2024-01-02T00:00:00Z'' []]
   \<and> \<not> most_recent_first
        [demo_event ''a'' ''2024-01-01T00:00:00Z'' [], demo_event ''b'' ''2024-01-02T00:00:00Z'' []]
   \<and> range_order
        [HashEvent demo_lib (demo_event ''a'' ''2024-01-01T00:00:00Z'' []) \<mapsto>
           demo_event ''a'' ''2024-01-01T00:00:00Z'' [],
         HashEvent demo_lib (demo_event ''b'' ''2024-01-02T00:00:00Z'' []) \<mapsto>
           demo_event ''b'' ''2024-01-02T00:00:00Z'' []]
        [HashEvent demo_lib (demo_event ''b'' ''2024-01-02T00:00:00Z'' []),
         HashEvent demo_lib (demo_event ''a'' ''2024-01-01T00:00:00Z'' [])]
   \<and> GetRecentEvents
        \<lparr>events = [HashEvent demo_lib (demo_event ''a'' ''2024-01-01T00:00:00Z'' []) \<mapsto>
                     demo_event ''a'' ''2024-01-01T00:00:00Z'' [],
                   HashEvent demo_lib (demo_event ''b'' ''2024-01-02T00:00:00Z'' []) \<mapsto>
                     demo_event ''b'' ''2024-01-02T00:00:00Z'' []],
         agents = [hex_EncodeToString demo_pub \<mapsto>
               \<lparr>PubKey = hex_EncodeToString demo_pub,
                LastEventHash = HashEvent demo_lib (demo_event ''b'' ''2024-01-02T00:00:00Z'' []),
                LastSeen = 2\<rparr>]\<rparr>
        [HashEvent demo_lib (demo_event ''b'' ''2024-01-02T00:00:00Z'' []),
         HashEvent demo_lib (demo_event ''a'' ''2024-01-01T00:00:00Z'' [])] 1
      = Returns [demo_event ''a'' ''2024-01-01T00:00:00Z'' []]"
proof -
  let ?A = "demo_event ''a'' ''2024-01-01T00:00:00Z'' []"
  let ?B = "demo_event ''b'' ''2024-01-02T00:00:00Z'' []"
  have k: "AuthorPubKey (demo_event d t ps) = hex_EncodeToString demo_pub" for d t ps
    by (simp add: demo_event_def)
  have ne: "HashEvent demo_lib ?A \<noteq> HashEvent demo_lib ?B"
    by (auto simp: HashEvent_demo_event dest: hex_Encode_inj)
  have added: "AddEvents demo_lib New [(1, ?A), (2, ?B)]
     = Some \<lparr>events = [HashEvent demo_lib ?A \<mapsto> ?A, HashEvent demo_lib ?B \<mapsto> ?B],
             agents = [hex_EncodeToString demo_pub \<mapsto>
               \<lparr>PubKey = hex_EncodeToString demo_pub, LastEventHash = HashEvent demo_lib ?B,
                LastSeen = 2\<rparr>]\<rparr>"
    by (simp add: AddEvent_verified [OF verifyEvent_demo_event] New_def k)
  have o1: "range_order [HashEvent demo_lib ?A \<mapsto> ?A, HashEvent demo_lib ?B \<mapsto> ?B]
      [HashEvent demo_lib ?A, HashEvent demo_lib ?B]"
    using ne by (auto simp: range_order_def)
  have o2: "range_order [HashEvent demo_lib ?A \<mapsto> ?A, HashEvent demo_lib ?B \<mapsto> ?B]
      [HashEvent demo_lib ?B, HashEvent demo_lib ?A]"
    using ne by (auto simp: range_order_def)
  have r2: "GetRecentEvents
        \<lparr>events = [HashEvent demo_lib ?A \<mapsto> ?A, HashEvent demo_lib ?B \<mapsto> ?B],
         agents = [hex_EncodeToString demo_pub \<mapsto>
               \<lparr>PubKey = hex_EncodeToString demo_pub, LastEventHash = HashEvent demo_lib ?B,
                LastSeen = 2\<rparr>]\<rparr>
        [HashEvent demo_lib ?A, HashEvent demo_lib ?B] 2 = Returns [?A, ?B]"
    using ne by (simp add: GetRecentEvents_def List.map_filter_simps)
  have r1: "GetRecentEvents
        \<lparr>events = [HashEvent demo_lib ?A \<mapsto> ?A, HashEvent demo_lib ?B \<mapsto> ?B],
         agents = [hex_EncodeToString demo_pub \<mapsto>
               \<lparr>PubKey = hex_EncodeToString demo_pub, LastEventHash = HashEvent demo_lib ?B,
                LastSeen = 2\<rparr>]\<rparr>
        [HashEvent demo_lib ?B, HashEvent demo_lib ?A] 1 = Returns [?A]"
    using ne by (simp add: GetRecentEvents_def List.map_filter_simps)
  have unsorted: "\<not> most_recent_first [?A, ?B]"
    by (simp add: most_recent_first_def demo_event_def)
  from added o1 r2 unsorted o2 r1 show ?thesis by blast
qed

subsection \<open>Walking the parents\<close>






text \<open>
  \<^verbatim>\<open>AddEvent\<close> stores an event under its own hash. In a store built by calls of
  \<^verbatim>\<open>AddEvent\<close> alone, with no write to an event after it was added, every event is under
  its own hash, and two hashes never hold the same event.
\<close>

lemma AddEvents_keyed:
  assumes "AddEvents L bc es = Some bc'"
    and "\<forall>h e. events bc h = Some e \<longrightarrow> HashEvent L e = h"
  shows "\<forall>h e. events bc' h = Some e \<longrightarrow> HashEvent L e = h"
  using assms
proof (induction es arbitrary: bc)
  case Nil
  then show ?case by simp
next
  case (Cons x es)
  obtain now e where x: "x = (now, e)" by (cases x)
  from Cons.prems(1) obtain bc1 where
    a: "AddEvent L now bc e = (bc1, Returns None)" and r: "AddEvents L bc1 es = Some bc'"
    by (auto simp: x split: prod.splits outcome.splits option.splits)
  have "\<forall>h e. events bc1 h = Some e \<longrightarrow> HashEvent L e = h"
    using AddEvent_accepts(1) [OF a] Cons.prems(2) by auto
  with r show ?case by (rule Cons.IH)
qed

lemma keyed_inj_on:
  assumes "\<forall>h e. evs h = Some e \<longrightarrow> HashEvent L e = h"
  shows "inj_on evs (dom evs)"
proof (rule inj_onI)
  fix x y
  assume "x \<in> dom evs" and "y \<in> dom evs" and eq: "evs x = evs y"
  then obtain e where "evs x = Some e" and "evs y = Some e"
    by auto
  with assms show "x = y" by metis
qed





end
